theory Spec2Isabelle
  imports Complex_Main "HOL-Library.Product_Lexorder"
begin

section \<open>Characters and strings\<close>

text \<open>
  A Python \<open>str\<close> is a sequence of code points. The model takes the code points
  0..255 (Latin-1), one \<^typ>\<open>char\<close> each, so \<^const>\<open>length\<close> counts what \<open>len\<close> counts.
  The character classes below are Python's own on that range: \<open>str.isspace\<close> (which is
  also what \<open>\s\<close>, \<open>strip()\<close> and \<open>split()\<close> use), the decimal digits of \<open>\d\<close>, the
  alphanumerics of \<open>\w\<close>, \<open>str.isupper\<close>, \<open>str.islower\<close> and \<open>str.lower\<close>.
\<close>

definition codepoint :: "char \<Rightarrow> nat" where
  "codepoint c = of_char c"

definition is_space :: "char \<Rightarrow> bool" where
  "is_space c = ((9 \<le> codepoint c \<and> codepoint c \<le> 13) \<or> (28 \<le> codepoint c \<and> codepoint c \<le> 32)
                 \<or> codepoint c = 133 \<or> codepoint c = 160)"

definition is_decimal :: "char \<Rightarrow> bool" where
  "is_decimal c = (48 \<le> codepoint c \<and> codepoint c \<le> 57)"

definition is_AZ :: "char \<Rightarrow> bool" where
  "is_AZ c = (65 \<le> codepoint c \<and> codepoint c \<le> 90)"

definition is_az :: "char \<Rightarrow> bool" where
  "is_az c = (97 \<le> codepoint c \<and> codepoint c \<le> 122)"

definition is_upper_char :: "char \<Rightarrow> bool" where
  "is_upper_char c = (is_AZ c \<or> (192 \<le> codepoint c \<and> codepoint c \<le> 214)
                      \<or> (216 \<le> codepoint c \<and> codepoint c \<le> 222))"

definition is_lower_char :: "char \<Rightarrow> bool" where
  "is_lower_char c = (is_az c \<or> codepoint c = 170 \<or> codepoint c = 181 \<or> codepoint c = 186
                      \<or> (223 \<le> codepoint c \<and> codepoint c \<le> 246)
                      \<or> (248 \<le> codepoint c \<and> codepoint c \<le> 255))"

definition is_word_char :: "char \<Rightarrow> bool" where
  \<comment> \<open>\<open>\w\<close>: alphanumeric (letters, decimals, the digits and fractions of Latin-1) or underscore\<close>
  "is_word_char c = (is_upper_char c \<or> is_lower_char c \<or> is_decimal c
                     \<or> codepoint c = 178 \<or> codepoint c = 179 \<or> codepoint c = 185
                     \<or> (188 \<le> codepoint c \<and> codepoint c \<le> 190) \<or> c = CHR ''_'')"

definition to_lower :: "char \<Rightarrow> char" where
  "to_lower c = (if is_upper_char c then char_of (codepoint c + 32) else c)"

definition lower :: "string \<Rightarrow> string" where
  "lower s = map to_lower s"

definition isupper_str :: "string \<Rightarrow> bool" where
  \<comment> \<open>\<open>str.isupper()\<close>: no lowercase character and at least one uppercase one\<close>
  "isupper_str s = ((\<forall>c \<in> set s. \<not> is_lower_char c) \<and> (\<exists>c \<in> set s. is_upper_char c))"

definition strip :: "string \<Rightarrow> string" where
  "strip s = rev (dropWhile is_space (rev (dropWhile is_space s)))"

definition endswith :: "string \<Rightarrow> string \<Rightarrow> bool" where
  "endswith s suf = (length suf \<le> length s \<and> drop (length s - length suf) s = suf)"

definition count_char :: "char \<Rightarrow> string \<Rightarrow> nat" where
  "count_char c s = length (filter (\<lambda>x. x = c) s)"

fun startswith :: "string \<Rightarrow> string \<Rightarrow> bool" where
  "startswith s [] = True"
| "startswith [] (k # ks) = False"
| "startswith (c # cs) (k # ks) = (c = k \<and> startswith cs ks)"

fun str_contains :: "string \<Rightarrow> string \<Rightarrow> bool" where
  \<comment> \<open>\<open>k in s\<close>\<close>
  "str_contains [] k = (k = [])"
| "str_contains (c # cs) k = (startswith (c # cs) k \<or> str_contains cs k)"

fun split_acc :: "string \<Rightarrow> string \<Rightarrow> string list" where
  "split_acc w [] = (if w = [] then [] else [w])"
| "split_acc w (c # cs) =
     (if is_space c then (if w = [] then split_acc [] cs else w # split_acc [] cs)
      else split_acc (w @ [c]) cs)"

definition split_ws :: "string \<Rightarrow> string list" where
  \<comment> \<open>\<open>s.split()\<close>: the maximal runs of non-whitespace\<close>
  "split_ws s = split_acc [] s"

fun split_on_acc :: "char \<Rightarrow> string \<Rightarrow> string \<Rightarrow> string list" where
  "split_on_acc d w [] = [w]"
| "split_on_acc d w (c # cs) =
     (if c = d then w # split_on_acc d [] cs else split_on_acc d (w @ [c]) cs)"

definition split_on :: "char \<Rightarrow> string \<Rightarrow> string list" where
  \<comment> \<open>\<open>s.split(d)\<close> for a one-character separator: empty pieces are kept\<close>
  "split_on d s = split_on_acc d [] s"

datatype py_error = IndexError | TypeError | ValueError | OverflowError | OSError

definition index_at :: "'a list \<Rightarrow> nat \<Rightarrow> py_error + 'a" where
  \<comment> \<open>\<open>xs[i]\<close> for \<open>i \<ge> 0\<close>\<close>
  "index_at xs i = (if i < length xs then Inr (xs ! i) else Inl IndexError)"

section \<open>Regular expressions\<close>

text \<open>
  The patterns of the source use no back-references and no look-around, so whether
  \<open>re.match\<close> or \<open>re.search\<close> finds a match is a question about the regular language.
  \<open>rmatch r s\<close> lists what is left of \<open>s\<close> after each way of matching \<open>r\<close> at its start.
  \<open>Eos\<close> is \<open>$\<close>: the end of the string, or just before a newline that ends it.
\<close>

datatype rx = Eps | Eos | Sym "char \<Rightarrow> bool" | Seq rx rx | Alt rx rx | Star rx

function rmatch :: "rx \<Rightarrow> string \<Rightarrow> string list" where
  "rmatch Eps s = [s]"
| "rmatch Eos s = (if s = [] \<or> s = [CHR 0x0A] then [s] else [])"
| "rmatch (Sym p) s = (case s of [] \<Rightarrow> [] | c # cs \<Rightarrow> if p c then [cs] else [])"
| "rmatch (Seq a b) s = concat (map (rmatch b) (rmatch a s))"
| "rmatch (Alt a b) s = rmatch a s @ rmatch b s"
| "rmatch (Star a) s =
     s # concat (map (rmatch (Star a)) (filter (\<lambda>t. length t < length s) (rmatch a s)))"
  by pat_completeness auto
termination
  by (relation "measures [\<lambda>(r, s). size r, \<lambda>(r, s). length s]") auto

definition re_match :: "rx \<Rightarrow> string \<Rightarrow> bool" where
  "re_match r s = (rmatch r s \<noteq> [])"

fun re_search :: "rx \<Rightarrow> string \<Rightarrow> bool" where
  "re_search r [] = re_match r []"
| "re_search r (c # cs) = (re_match r (c # cs) \<or> re_search r cs)"

definition Plus :: "rx \<Rightarrow> rx" where
  "Plus r = Seq r (Star r)"

definition Opt :: "rx \<Rightarrow> rx" where
  "Opt r = Alt r Eps"

definition Lit :: "char \<Rightarrow> rx" where
  "Lit c = Sym (\<lambda>x. x = c)"

definition Word_ci :: "string \<Rightarrow> rx" where
  \<comment> \<open>a literal word under \<open>re.IGNORECASE\<close>\<close>
  "Word_ci w = foldr (\<lambda>c r. Seq (Sym (\<lambda>x. to_lower x = to_lower c)) r) w Eps"

section \<open>Text Normalizer\<close>

function sub_ws_runs :: "string \<Rightarrow> string" where
  \<comment> \<open>\<open>re.sub(r'\s+', ' ', s)\<close>\<close>
  "sub_ws_runs [] = []"
| "sub_ws_runs (c # cs) =
     (if is_space c then CHR '' '' # sub_ws_runs (dropWhile is_space cs)
      else c # sub_ws_runs cs)"
  by pat_completeness auto
termination
  by (relation "measure length") (auto simp: le_imp_less_Suc length_dropWhile_le)

definition sub_formfeed :: "string \<Rightarrow> string" where
  \<comment> \<open>\<open>re.sub(r'\f', '\n', s)\<close>\<close>
  "sub_formfeed s = map (\<lambda>c. if c = CHR 0x0C then CHR 0x0A else c) s"

fun rfind :: "char \<Rightarrow> string \<Rightarrow> nat option" where
  \<comment> \<open>the index of the last occurrence of a character, if there is one\<close>
  "rfind d [] = None"
| "rfind d (c # cs) =
     (case rfind d cs of Some k \<Rightarrow> Some (Suc k)
      | None \<Rightarrow> if c = d then Some 0 else None)"

function sub_blank_lines :: "string \<Rightarrow> string" where
  \<comment> \<open>\<open>re.sub(r'\n\s*\n', '\n', s)\<close>: from a newline, the greedy \<open>\s*\<close> takes the whole
      whitespace run and backtracks to the last newline in it\<close>
  "sub_blank_lines [] = []"
| "sub_blank_lines (c # cs) =
     (if c = CHR 0x0A then
        (case rfind (CHR 0x0A) (takeWhile is_space cs) of
           Some k \<Rightarrow> CHR 0x0A # sub_blank_lines (drop (Suc k) cs)
         | None \<Rightarrow> c # sub_blank_lines cs)
      else c # sub_blank_lines cs)"
  by pat_completeness auto
termination
  by (relation "measure length") auto

definition clean_extracted_text :: "string \<Rightarrow> string" where
  "clean_extracted_text text = strip (sub_blank_lines (sub_formfeed (sub_ws_runs text)))"

section \<open>Heading candidates\<close>

text \<open>
  A candidate is the dictionary the detectors build. Every creation site sets its
  \<open>children\<close> to the empty list and only the Hierarchy Builder appends to it, so the
  candidate is the flat record and the nesting is the builder's output tree. A key that
  a dictionary lacks is read through \<open>.get(key, 0)\<close>: \<open>line_number\<close> is \<open>None\<close> for a
  builtin-outline entry, and \<open>confidence\<close> is 0 until the outline reader sets it.
  A confidence is a float that is only ever a literal of the source and only ever
  compared, so it is the rational the literal denotes.
\<close>

datatype source = builtin_outline | text_analysis | font_analysis | position_analysis

record heading =
  title :: string
  level :: nat
  page_number :: "int option"
  line_number :: "nat option"
  source :: source
  confidence :: rat
  color :: "string option"
  italic :: "string option"
  bold :: "string option"

section \<open>Pattern-Based Text Detector\<close>

definition rx_skip_patterns :: "rx list" where
  "rx_skip_patterns =
    [ Seq (Star (Sym is_space)) Eos,
      Seq (Plus (Sym is_decimal)) Eos,
      Sym is_az,
      Seq (Lit CHR ''.'') Eos,
      Seq (Star (Sym is_space))
        (Seq (Sym (\<lambda>c. c = CHR ''-'' \<or> c = CHR ''*'')) (Star (Sym is_space))),
      Seq (Star (Sym is_space))
        (Seq (Plus (Sym is_decimal)) (Seq (Lit CHR ''.'') (Seq (Star (Sym is_space)) Eos))),
      Seq (Star (Sym is_space)) (Seq (Sym is_AZ) (Seq (Star (Sym is_space)) Eos)),
      Seq (Star (Sym is_space))
        (Seq (Sym is_AZ) (Seq (Opt (Sym is_AZ)) (Seq (Star (Sym is_space)) Eos))),
      Seq (Star (Sym is_space))
        (Seq (Sym is_az) (Seq (Opt (Sym is_az)) (Seq (Opt (Sym is_az))
          (Seq (Star (Sym is_space)) Eos)))),
      Seq (Star (Sym is_space))
        (Seq (Sym is_AZ) (Seq (Sym is_az) (Seq (Opt (Sym is_az))
          (Seq (Star (Sym is_space)) Eos)))) ]"

definition rx_sentence_end :: rx where
  \<comment> \<open>\<open>[.!?]\s*$\<close>\<close>
  "rx_sentence_end =
     Seq (Sym (\<lambda>c. c = CHR ''.'' \<or> c = CHR ''!'' \<or> c = CHR ''?'')) (Seq (Star (Sym is_space)) Eos)"

definition is_regular_text :: "string \<Rightarrow> bool" where
  "is_regular_text line =
     (if list_ex (\<lambda>pattern. re_match pattern line) rx_skip_patterns then True
      else if re_search rx_sentence_end line \<and> length (split_ws line) > 10 then True
      else False)"

definition is_title_case :: "string \<Rightarrow> py_error + bool" where
  "is_title_case text =
     (let words = split_ws text in
      if length words < 2 then Inr False
      else case index_at words 0 of
        Inl e \<Rightarrow> Inl e
      | Inr w0 \<Rightarrow>
         (case index_at w0 0 of
            Inl e \<Rightarrow> Inl e
          | Inr c \<Rightarrow>
             if \<not> is_upper_char c then Inr False
             else
               let capitalized_count =
                     length (filter (\<lambda>word. case word of [] \<Rightarrow> False | c # _ \<Rightarrow> is_upper_char c) words)
               in Inr (rat_of_nat capitalized_count \<ge> rat_of_nat (length words) * (6 / 10))))"

definition heading_keywords :: "string list" where
  "heading_keywords =
    [''introduction'', ''overview'', ''background'', ''method'', ''methodology'',
     ''results'', ''discussion'', ''conclusion'', ''summary'', ''abstract'',
     ''chapter'', ''section'', ''part'', ''appendix'', ''reference'', ''bibliography'',
     ''round'', ''phase'', ''step'', ''stage'', ''level'', ''challenge'', ''task'',
     ''objective'', ''goal'', ''purpose'', ''scope'', ''limitation'', ''requirement'']"

definition contains_heading_keywords :: "string \<Rightarrow> bool" where
  "contains_heading_keywords text =
     (let text_lower = lower text in list_ex (\<lambda>keyword. str_contains text_lower keyword) heading_keywords)"

definition rx_numbered :: rx where
  \<comment> \<open>\<open>^\d+(\.\d+)*\.?\s+[A-Z]\<close>\<close>
  "rx_numbered =
     Seq (Plus (Sym is_decimal))
       (Seq (Star (Seq (Lit CHR ''.'') (Plus (Sym is_decimal))))
         (Seq (Opt (Lit CHR ''.'')) (Seq (Plus (Sym is_space)) (Sym is_AZ))))"

definition rx_capitalized :: rx where
  \<comment> \<open>\<open>^[A-Z][A-Za-z\s]{2,}$\<close>\<close>
  "rx_capitalized =
     (let body = Sym (\<lambda>c. is_AZ c \<or> is_az c \<or> is_space c)
      in Seq (Sym is_AZ) (Seq body (Seq body (Seq (Star body) Eos))))"

definition rx_section :: rx where
  \<comment> \<open>\<open>^(Section|Chapter|Part|Appendix|Round|Phase)\s+\d+\<close>, ignoring case\<close>
  "rx_section =
     Seq (Alt (Word_ci ''Section'') (Alt (Word_ci ''Chapter'') (Alt (Word_ci ''Part'')
            (Alt (Word_ci ''Appendix'') (Alt (Word_ci ''Round'') (Word_ci ''Phase''))))))
       (Seq (Plus (Sym is_space)) (Plus (Sym is_decimal)))"

definition classify_line :: "string \<Rightarrow> py_error + rat \<times> nat" where
  \<comment> \<open>the \<open>if\<close>/\<open>elif\<close> chain of \<open>_analyze_line_for_heading\<close>: the confidence and the level\<close>
  "classify_line line =
     (if re_match rx_numbered line then Inr (9 / 10, count_char CHR ''.'' line)
      else if isupper_str line \<and> length line > 3 \<and> length line < 100 then Inr (85 / 100, 0)
      else case is_title_case line of
        Inl e \<Rightarrow> Inl e
      | Inr tc \<Rightarrow>
         if tc \<and> contains_heading_keywords line then Inr (8 / 10, 1)
         else if re_match rx_capitalized line \<and> length (split_ws line) \<le> 8 then Inr (75 / 100, 2)
         else if re_match rx_section line then Inr (9 / 10, 0)
         else if length (split_ws line) \<le> 5 then
           (case index_at line 0 of
              Inl e \<Rightarrow> Inl e
            | Inr c \<Rightarrow> if is_upper_char c \<and> \<not> endswith line ''.'' then Inr (7 / 10, 2) else Inr (0, 0))
         else Inr (0, 0))"

definition analyze_line_for_heading :: "string \<Rightarrow> nat \<Rightarrow> nat \<Rightarrow> py_error + heading option" where
  "analyze_line_for_heading raw page_num line_num =
     (let line = sub_ws_runs (strip raw) in
      if length line < 3 \<or> length line > 200 then Inr None
      else if is_regular_text line then Inr None
      else case classify_line line of
        Inl e \<Rightarrow> Inl e
      | Inr (conf, lvl) \<Rightarrow>
         if conf > 6 / 10 then
           Inr (Some \<lparr> title = line, level = lvl, page_number = Some (int page_num),
                      line_number = Some line_num, source = text_analysis, confidence = conf,
                      color = None, italic = None, bold = None \<rparr>)
         else Inr None)"

text \<open>
  A page is the result of \<open>page.extract_text()\<close>: \<open>None\<close> when the call raises or gives no
  string, which every detector answers by skipping the page. Inside a page the lines are
  visited in order; a line whose analysis raises ends the page (the \<open>except\<close> around the
  page) and keeps the candidates found before it.
\<close>

fun scan_lines :: "(string \<Rightarrow> nat \<Rightarrow> py_error + heading option) \<Rightarrow> nat \<Rightarrow> string list \<Rightarrow> heading list" where
  "scan_lines f line_num [] = []"
| "scan_lines f line_num (line # rest) =
     (case f line line_num of
        Inl e \<Rightarrow> []
      | Inr None \<Rightarrow> scan_lines f (Suc line_num) rest
      | Inr (Some h) \<Rightarrow> h # scan_lines f (Suc line_num) rest)"

definition text_line :: "nat \<Rightarrow> string \<Rightarrow> nat \<Rightarrow> py_error + heading option" where
  "text_line page_num raw line_num =
     (let line = strip raw in
      if line = [] \<or> length line < 3 then Inr None
      else analyze_line_for_heading line page_num line_num)"

definition text_page :: "nat \<Rightarrow> string option \<Rightarrow> heading list" where
  "text_page page_num page =
     (case page of
        None \<Rightarrow> []
      | Some text \<Rightarrow>
         if text = [] then []
         else scan_lines (text_line page_num) 1 (split_on (CHR 0x0A) (clean_extracted_text text)))"

definition enumerate1 :: "'a list \<Rightarrow> (nat \<times> 'a) list" where
  \<comment> \<open>\<open>enumerate(xs, 1)\<close>\<close>
  "enumerate1 xs = zip [1 ..< Suc (length xs)] xs"

definition extract_headings_from_text :: "string option list \<Rightarrow> heading list" where
  "extract_headings_from_text pgs = concat (map (\<lambda>(page_num, page). text_page page_num page) (enumerate1 pgs))"

section \<open>Font-Heuristic Detector\<close>

definition font_line :: "nat \<Rightarrow> string \<Rightarrow> nat \<Rightarrow> py_error + heading option" where
  "font_line page_num raw line_num =
     (let line = strip raw;
          emitted = \<lparr> title = line, level = 1, page_number = Some (int page_num),
                      line_number = Some line_num, source = font_analysis, confidence = 6 / 10,
                      color = None, italic = None, bold = None \<rparr>
      in if length line > 3 \<and> length line < 50 then
           (if isupper_str line then Inr (Some emitted)
            else case index_at line 0 of
              Inl e \<Rightarrow> Inl e
            | Inr c \<Rightarrow>
               if is_upper_char c \<and> length (split_ws line) \<le> 6 \<and> \<not> endswith line ''.''
               then Inr (Some emitted) else Inr None)
         else Inr None)"

definition font_page :: "nat \<Rightarrow> string option \<Rightarrow> heading list" where
  "font_page page_num page =
     (case page of
        None \<Rightarrow> []
      | Some text \<Rightarrow>
         if text = [] then []
         else scan_lines (font_line page_num) 1 (split_on (CHR 0x0A) text))"

definition extract_headings_by_font :: "string option list \<Rightarrow> heading list" where
  "extract_headings_by_font pgs = concat (map (\<lambda>(page_num, page). font_page page_num page) (enumerate1 pgs))"

section \<open>Position Heuristic Detector\<close>

definition position_line :: "nat \<Rightarrow> string \<Rightarrow> nat \<Rightarrow> py_error + heading option" where
  "position_line page_num raw line_num =
     (let line = strip raw in
      if line_num \<le> 3 \<and> length line > 3 \<and> length line < 100 then
        (case index_at line 0 of
           Inl e \<Rightarrow> Inl e
         | Inr c \<Rightarrow>
            if is_upper_char c \<and> \<not> endswith line ''.'' then
              Inr (Some \<lparr> title = line, level = (if line_num = 1 then 0 else 1),
                         page_number = Some (int page_num), line_number = Some line_num,
                         source = position_analysis, confidence = 65 / 100,
                         color = None, italic = None, bold = None \<rparr>)
            else Inr None)
      else Inr None)"

definition position_page :: "nat \<Rightarrow> string option \<Rightarrow> heading list" where
  "position_page page_num page =
     (case page of
        None \<Rightarrow> []
      | Some text \<Rightarrow>
         if text = [] then []
         else scan_lines (position_line page_num) 1 (split_on (CHR 0x0A) text))"

definition extract_headings_by_position :: "string option list \<Rightarrow> heading list" where
  "extract_headings_by_position pgs =
     concat (map (\<lambda>(page_num, page). position_page page_num page) (enumerate1 pgs))"

section \<open>Builtin-Outline Reader\<close>

text \<open>
  The outline is the parsing library's: a list whose members are entries or nested
  lists. An entry is what the reader looks at: its title as a string, its page reference
  if it has one, and the cosmetic attributes it has, as strings. A page reference is an
  object with \<open>__int__\<close> (an integer, or a float, which has \<open>__int__\<close> too), an object with
  \<open>__float__\<close> only, or anything else, which is read through \<open>str\<close>. A float enters only
  as the value \<open>int\<close> truncates, so it is the rational it denotes, a NaN or an infinity.
\<close>

datatype pyfloat = Finite rat | NaN | PosInf | NegInf

datatype page_ref = IntLike int | FloatValue pyfloat | FloatLike pyfloat | StrLike string

record outline_item =
  item_title :: string
  item_page :: "page_ref option"
  item_color :: "string option"
  item_italic :: "string option"
  item_bold :: "string option"

datatype outline_entry = Entry outline_item | Nested "outline_entry list"

fun int_of_float :: "pyfloat \<Rightarrow> py_error + int" where
  \<comment> \<open>\<open>int(x)\<close> truncates toward zero\<close>
  "int_of_float (Finite q) = Inr (if q < 0 then \<lceil>q\<rceil> else \<lfloor>q\<rfloor>)"
| "int_of_float NaN = Inl ValueError"
| "int_of_float PosInf = Inl OverflowError"
| "int_of_float NegInf = Inl OverflowError"

definition int_of_digits :: "string \<Rightarrow> int" where
  "int_of_digits ds = foldl (\<lambda>n c. 10 * n + (int (codepoint c) - 48)) 0 ds"

definition int_of_str :: "string \<Rightarrow> py_error + int" where
  \<comment> \<open>\<open>int(s)\<close> for a run of decimal digits: Python refuses a run of more than 4300
      digits (its default limit on integer strings) with \<open>ValueError\<close>\<close>
  "int_of_str ds = (if length ds > 4300 then Inl ValueError else Inr (int_of_digits ds))"

definition first_number :: "string \<Rightarrow> string" where
  \<comment> \<open>\<open>re.findall(r'\d+', s)\<close>: its first member, or the empty string when it has none\<close>
  "first_number s = takeWhile is_decimal (dropWhile (\<lambda>c. \<not> is_decimal c) s)"

definition catch_value_type_attribute :: "py_error + int option \<Rightarrow> py_error + int option" where
  \<comment> \<open>\<open>except (ValueError, TypeError, AttributeError): return None\<close>\<close>
  "catch_value_type_attribute r =
     (case r of
        Inl e \<Rightarrow> if e = ValueError \<or> e = TypeError then Inr None else Inl e
      | Inr v \<Rightarrow> Inr v)"

definition get_page_number :: "outline_item \<Rightarrow> py_error + int option" where
  "get_page_number item =
     catch_value_type_attribute
       (case item_page item of
          None \<Rightarrow> Inr None
        | Some (IntLike n) \<Rightarrow> Inr (Some (n + 1))
        | Some (FloatValue x) \<Rightarrow>
            (case int_of_float x of Inl e \<Rightarrow> Inl e | Inr n \<Rightarrow> Inr (Some (n + 1)))
        | Some (FloatLike x) \<Rightarrow>
            (case int_of_float x of Inl e \<Rightarrow> Inl e | Inr n \<Rightarrow> Inr (Some (n + 1)))
        | Some (StrLike page_str) \<Rightarrow>
            (let number = first_number page_str
             in if number \<noteq> [] then
                  (case int_of_str number of Inl e \<Rightarrow> Inl e | Inr n \<Rightarrow> Inr (Some (n + 1)))
                else Inr None))"

fun process_outline_entry :: "nat \<Rightarrow> outline_entry \<Rightarrow> heading list" where
  \<comment> \<open>one turn of the loop of \<open>_process_outline_items\<close>; an entry that raises is skipped\<close>
  "process_outline_entry lvl (Nested items) = concat (map (process_outline_entry (lvl + 1)) items)"
| "process_outline_entry lvl (Entry item) =
     (case get_page_number item of
        Inl e \<Rightarrow> []
      | Inr page \<Rightarrow>
         [\<lparr> title = item_title item, level = lvl, page_number = page, line_number = None,
            source = builtin_outline, confidence = 0,
            color = item_color item, italic = item_italic item, bold = item_bold item \<rparr>])"

definition process_outline_items :: "outline_entry list \<Rightarrow> nat \<Rightarrow> heading list" where
  "process_outline_items items lvl = concat (map (process_outline_entry lvl) items)"

fun entry_items :: "outline_entry \<Rightarrow> outline_item list" where
  \<comment> \<open>the entries of an outline, nested ones included; used to state properties\<close>
  "entry_items (Entry item) = [item]"
| "entry_items (Nested items) = concat (map entry_items items)"

definition extract_builtin_outline :: "outline_entry list \<Rightarrow> heading list" where
  "extract_builtin_outline ol =
     (if ol \<noteq> [] then
        map (\<lambda>item. item\<lparr> source := builtin_outline, confidence := 95 / 100 \<rparr>)
          (process_outline_items ol 0)
      else [])"

section \<open>Fusion/Deduplication Engine\<close>

text \<open>
  The Jaccard similarity is the one float the source computes: a quotient of two set
  sizes, compared with the literal 0.8. The correctly rounded quotient of two integers
  below \<open>2^50\<close> exceeds the double nearest to 0.8 exactly when the exact quotient exceeds
  \<open>4/5\<close>, so the model compares rationals.
\<close>

definition normalize_title :: "string \<Rightarrow> string" where
  "normalize_title t =
     (let normalized = sub_ws_runs (strip (lower t))
      in filter (\<lambda>c. is_word_char c \<or> is_space c) normalized)"

definition calculate_similarity :: "string \<Rightarrow> string \<Rightarrow> rat" where
  "calculate_similarity title1 title2 =
     (if title1 = [] \<or> title2 = [] then 0
      else
        let words1 = set (split_ws title1); words2 = set (split_ws title2)
        in if words1 = {} \<or> words2 = {} then 0
           else
             let intersection = words1 \<inter> words2; union = words1 \<union> words2
             in if union \<noteq> {} then rat_of_nat (card intersection) / rat_of_nat (card union) else 0)"

fun scan_existing :: "heading \<Rightarrow> string \<Rightarrow> heading list \<Rightarrow> heading list \<Rightarrow> bool \<times> heading list" where
  \<comment> \<open>the inner loop over \<open>unique_headings\<close>: \<open>rest\<close> is what is still to be visited; the
      result is \<open>is_duplicate\<close> and the list after the loop. \<open>list.remove\<close> takes out the
      first equal member, which is \<^const>\<open>remove1\<close>.\<close>
  "scan_existing heading normalized_title [] unique_headings = (False, unique_headings)"
| "scan_existing heading normalized_title (existing # rest) unique_headings =
     (let existing_normalized = normalize_title (strip (title existing)) in
      if normalized_title = existing_normalized then
        (True,
         if confidence heading > confidence existing
         then remove1 existing unique_headings @ [heading] else unique_headings)
      else if calculate_similarity normalized_title existing_normalized > 8 / 10 then
        (True,
         if confidence heading > confidence existing
         then remove1 existing unique_headings @ [heading] else unique_headings)
      else scan_existing heading normalized_title rest unique_headings)"

definition dedup_step :: "heading list \<Rightarrow> heading \<Rightarrow> heading list" where
  \<comment> \<open>one turn of the outer loop\<close>
  "dedup_step unique_headings heading =
     (let t = strip (title heading) in
      if t = [] then unique_headings
      else
        let normalized_title = normalize_title t;
            (is_duplicate, unique') = scan_existing heading normalized_title unique_headings unique_headings
        in if \<not> is_duplicate then unique' @ [heading] else unique')"

definition advanced_deduplication :: "heading list \<Rightarrow> heading list" where
  "advanced_deduplication headings = foldl dedup_step [] headings"





definition candidate :: "string \<Rightarrow> nat \<Rightarrow> source \<Rightarrow> rat \<Rightarrow> nat \<Rightarrow> heading" where
  \<comment> \<open>a candidate of page 1, to write examples with\<close>
  "candidate t lvl src conf lno =
     \<lparr> title = t, level = lvl, page_number = Some 1, line_number = Some lno, source = src,
       confidence = conf, color = None, italic = None, bold = None \<rparr>"

section \<open>Hierarchy Builder\<close>

text \<open>
  Python compares the sort keys as tuples: at the first position where two keys differ
  it asks for \<open><\<close>, and \<open><\<close> between \<open>None\<close> and an integer raises \<open>TypeError\<close>. A level and
  a line key are always integers; a page key is \<open>None\<close> for an unresolved outline entry.
  A sort that never compared a \<open>None\<close> page with an integer page of the same level could
  not tell which comes first, so \<open>list.sort\<close> raises exactly when the list holds two
  candidates of one level, one with a page and one without. Otherwise it is the stable
  sort by the key, in which a missing page can be read as any one integer.
\<close>

definition page_key :: "heading \<Rightarrow> int" where
  "page_key h = (case page_number h of None \<Rightarrow> 0 | Some p \<Rightarrow> p)"

definition line_key :: "heading \<Rightarrow> nat" where
  \<comment> \<open>\<open>x.get('line_number', 0)\<close>\<close>
  "line_key h = (case line_number h of None \<Rightarrow> 0 | Some l \<Rightarrow> l)"

definition level_page_clash :: "heading list \<Rightarrow> bool" where
  "level_page_clash hs =
     list_ex (\<lambda>a. list_ex (\<lambda>b. level a = level b \<and> page_number a = None \<and> page_number b \<noteq> None) hs) hs"

definition sort_by_level :: "heading list \<Rightarrow> py_error + heading list" where
  \<comment> \<open>\<open>headings.sort(key=lambda x: (level, page_number, line_number))\<close>\<close>
  "sort_by_level hs =
     (if level_page_clash hs then Inl TypeError
      else Inr (sort_key (\<lambda>x. (level x, page_key x, line_key x)) hs))"

text \<open>
  The loop appends to the \<open>children\<close> of a dictionary that is at the same time on the
  stack and somewhere inside \<open>hierarchy\<close>. The model keeps that sharing in a store: a
  candidate is named by its index in the sorted list, \<open>kids\<close> maps an index to the
  indices appended to its \<open>children\<close>, and \<open>hierarchy\<close> and \<open>stack\<close> hold indices. The stack
  is written top first.
\<close>

record hstate =
  hierarchy :: "nat list"
  kids :: "nat \<Rightarrow> nat list"
  stack :: "nat list"

definition place :: "heading list \<Rightarrow> hstate \<Rightarrow> nat \<Rightarrow> hstate" where
  \<comment> \<open>one turn of the loop, for the candidate at index \<open>i\<close>\<close>
  "place hs st i =
     (let lvl = level (hs ! i);
          stk = dropWhile (\<lambda>top. level (hs ! top) \<ge> lvl) (stack st)
      in case stk of
           [] \<Rightarrow> st\<lparr> hierarchy := hierarchy st @ [i], stack := [i] \<rparr>
         | parent # _ \<Rightarrow> st\<lparr> kids := (kids st)(parent := kids st parent @ [i]), stack := i # stk \<rparr>)"

definition build_store :: "heading list \<Rightarrow> hstate" where
  "build_store hs = foldl (place hs) \<lparr> hierarchy = [], kids = (\<lambda>_. []), stack = [] \<rparr> [0 ..< length hs]"

datatype hnode = HNode heading "hnode list"

fun node_heading :: "hnode \<Rightarrow> heading" where
  "node_heading (HNode h cs) = h"

fun node_children :: "hnode \<Rightarrow> hnode list" where
  "node_children (HNode h cs) = cs"

function mk_tree :: "heading list \<Rightarrow> (nat \<Rightarrow> nat list) \<Rightarrow> nat \<Rightarrow> hnode" where
  \<comment> \<open>the nested dictionary at index \<open>i\<close>, read off the store. A child of the loop always
      has a larger index than its parent (\<open>kids_in_range\<close> below), so the filter drops
      nothing; it is there for the recursion to be well-founded.\<close>
  "mk_tree hs ks i =
     HNode (hs ! i) (map (mk_tree hs ks) (filter (\<lambda>c. i < c \<and> c < length hs) (ks i)))"
  by pat_completeness auto
termination
  by (relation "measure (\<lambda>(hs, ks, i). length hs - i)") auto

declare mk_tree.simps [simp del]

fun strictly_nested :: "hnode \<Rightarrow> bool" where
  \<comment> \<open>every child, at every depth, has a level strictly above its parent's\<close>
  "strictly_nested (HNode h cs) =
     (\<forall>c \<in> set cs. level h < level (node_heading c) \<and> strictly_nested c)"

definition store_inv :: "heading list \<Rightarrow> nat \<Rightarrow> hstate \<Rightarrow> bool" where
  \<comment> \<open>the invariant of the loop after \<open>k\<close> turns\<close>
  "store_inv hs k st =
     ((\<forall>j \<in> set (stack st). j < k)
      \<and> (\<forall>p c. c \<in> set (kids st p) \<longrightarrow> p < c \<and> c < k \<and> level (hs ! p) < level (hs ! c)))"

definition build_hierarchy :: "heading list \<Rightarrow> py_error + hnode list" where
  "build_hierarchy headings =
     (case sort_by_level headings of
        Inl e \<Rightarrow> Inl e
      | Inr hs \<Rightarrow> let st = build_store hs in Inr (map (mk_tree hs (kids st)) (hierarchy st)))"

fun paths :: "hnode \<Rightarrow> heading list list" where
  \<comment> \<open>every path from the node down to one of its descendants, itself included\<close>
  "paths (HNode h cs) = [h] # map ((#) h) (concat (map paths cs))"

section \<open>Report Assembler and command line\<close>

record pdf =
  pages :: "string option list"
  outline :: "outline_entry list"

record report =
  pdf_filename :: string
  total_headings :: nat
  builtin_outline_count :: nat
  text_analysis_count :: nat
  font_analysis_count :: nat
  position_analysis_count :: nat
  headings :: "hnode list"

datatype extraction = Failure string | Report report

text \<open>
  The world outside: whether a path exists, what \<open>PdfReader\<close> makes of it (\<open>None\<close> when it
  raises), and whether a path can be opened for writing.
\<close>

record world =
  path_exists :: "string \<Rightarrow> bool"
  read_pdf :: "string \<Rightarrow> pdf option"
  can_write :: "string \<Rightarrow> bool"

definition load_pdf :: "world \<Rightarrow> string \<Rightarrow> pdf option" where
  \<comment> \<open>\<open>Some\<close> reader when \<open>load_pdf\<close> returns \<open>True\<close>\<close>
  "load_pdf w pdf_path =
     (if \<not> path_exists w pdf_path then None
      else case read_pdf w pdf_path of
        None \<Rightarrow> None
      | Some reader \<Rightarrow> if length (pages reader) = 0 then None else Some reader)"

definition basename :: "string \<Rightarrow> string" where
  "basename p = rev (takeWhile (\<lambda>c. c \<noteq> CHR ''/'') (rev p))"

definition splitext_root :: "string \<Rightarrow> string" where
  \<comment> \<open>\<open>os.path.splitext(p)[0]\<close> for a name without separators: cut at the last dot,
      unless only dots come before it\<close>
  "splitext_root p =
     (case rfind (CHR ''.'') p of
        None \<Rightarrow> p
      | Some d \<Rightarrow> if list_ex (\<lambda>c. c \<noteq> CHR ''.'') (take d p) then take d p else p)"

definition page_clash :: "heading list \<Rightarrow> bool" where
  "page_clash hs = list_ex (\<lambda>a. list_ex (\<lambda>b. page_number a = None \<and> page_number b \<noteq> None) hs) hs"

definition sort_by_page :: "heading list \<Rightarrow> py_error + heading list" where
  \<comment> \<open>\<open>final_headings.sort(key=lambda x: (page_number, line_number))\<close>\<close>
  "sort_by_page hs =
     (if page_clash hs then Inl TypeError
      else Inr (sort_key (\<lambda>x. (page_key x, line_key x)) hs))"

definition extract_all_headings :: "world \<Rightarrow> string \<Rightarrow> py_error + extraction" where
  "extract_all_headings w pdf_path =
     (case load_pdf w pdf_path of
        None \<Rightarrow> Inr (Failure ''Failed to load PDF'')
      | Some reader \<Rightarrow>
         let builtin_headings = extract_builtin_outline (outline reader);
             text_headings = extract_headings_from_text (pages reader);
             font_headings = extract_headings_by_font (pages reader);
             position_headings = extract_headings_by_position (pages reader);
             all_headings = builtin_headings @ text_headings @ font_headings @ position_headings;
             final_headings = advanced_deduplication all_headings
         in case sort_by_page final_headings of
              Inl e \<Rightarrow> Inl e
            | Inr sorted_headings \<Rightarrow>
               (case build_hierarchy sorted_headings of
                  Inl e \<Rightarrow> Inl e
                | Inr hierarchical_headings \<Rightarrow>
                   Inr (Report \<lparr> pdf_filename = basename pdf_path,
                                 total_headings = length final_headings,
                                 builtin_outline_count = length builtin_headings,
                                 text_analysis_count = length text_headings,
                                 font_analysis_count = length font_headings,
                                 position_analysis_count = length position_headings,
                                 headings = hierarchical_headings \<rparr>)))"

definition convert_to_json ::
  "world \<Rightarrow> string \<Rightarrow> string option \<Rightarrow> (string \<rightharpoonup> extraction) \<Rightarrow> string option \<times> (string \<rightharpoonup> extraction)" where
  \<comment> \<open>the files are the state: the result is the returned path (\<open>None\<close> after an exception)
      and the files after the call\<close>
  "convert_to_json w pdf_path output_path files =
     (case extract_all_headings w pdf_path of
        Inl e \<Rightarrow> (None, files)
      | Inr result \<Rightarrow>
         let out = (case output_path of
                      None \<Rightarrow> splitext_root (basename pdf_path) @ ''_best_outline.json''
                    | Some p \<Rightarrow> p)
         in if can_write w out then (Some out, files(out \<mapsto> result)) else (None, files))"

record outcome =
  exit_status :: nat
  printed :: "string list"
  written :: "string \<rightharpoonup> extraction"

definition main :: "world \<Rightarrow> string list \<Rightarrow> outcome" where
  "main w argv =
     (if length argv \<noteq> 2 then
        \<lparr> exit_status = 1, printed = [''Usage: python best_pdf_converter.py <pdf_file>''],
          written = Map.empty \<rparr>
      else
        let pdf_path = argv ! 1;
            (output_path, files) = convert_to_json w pdf_path None Map.empty
        in case output_path of
             Some p \<Rightarrow>
               (if p \<noteq> [] then
                  \<lparr> exit_status = 0,
                    printed = [''Conversion completed successfully!'', ''Output saved to: '' @ p],
                    written = files \<rparr>
                else \<lparr> exit_status = 1, printed = [''Conversion failed!''], written = files \<rparr>)
           | None \<Rightarrow> \<lparr> exit_status = 1, printed = [''Conversion failed!''], written = files \<rparr>)"

section \<open>Properties\<close>

subsection \<open>Text Normalizer\<close>

text \<open>
  C4. The Text Normalizer is said to turn each form feed into a newline. The first
  substitution treats the form feed as whitespace and replaces it by a space, so the
  second substitution never finds one: on the page text \<open>a\fb\<close> the result is \<open>a b\<close>,
  with a space where the claim has a newline.
\<close>

theorem clean_extracted_text_formfeed:
  "clean_extracted_text (''a'' @ [CHR 0x0C] @ ''b'') = ''a b''"
  by (simp add: clean_extracted_text_def strip_def sub_formfeed_def is_space_def codepoint_def)

subsection \<open>Load failure\<close>

text \<open>
  C1. A load failure is said to produce no output file and to end the run with a failure
  report and a nonzero exit status. For a path that does not exist, \<open>extract_all_headings\<close>
  returns the error dictionary as an ordinary result; \<open>convert_to_json\<close> writes it to the
  derived output path and returns that path; \<open>main\<close> prints the success messages and
  ends with status 0.
\<close>

theorem main_missing_file_reports_success:
  "main \<lparr> path_exists = (\<lambda>_. False), read_pdf = (\<lambda>_. None), can_write = (\<lambda>_. True) \<rparr>
        [''best_pdf_converter.py'', ''missing.pdf'']
   = \<lparr> exit_status = 0,
       printed = [''Conversion completed successfully!'',
                  ''Output saved to: missing_best_outline.json''],
       written = [''missing_best_outline.json'' \<mapsto> Failure ''Failed to load PDF''] \<rparr>"
  by (simp add: main_def convert_to_json_def extract_all_headings_def load_pdf_def
        basename_def splitext_root_def Let_def)

subsection \<open>Detectors\<close>

lemma scan_lines_emitted:
  "h \<in> set (scan_lines f n ls) \<Longrightarrow> \<exists>l k. f l k = Inr (Some h)"
proof (induction ls arbitrary: n)
  case Nil
  then show ?case by simp
next
  case (Cons l ls)
  then show ?case
    by (cases "f l n") (auto split: option.splits)
qed

lemma split_acc_nonempty: "x \<in> set (split_acc w s) \<Longrightarrow> x \<noteq> []"
  by (induction w s rule: split_acc.induct) (auto split: if_splits)

lemma split_ws_nonempty: "x \<in> set (split_ws s) \<Longrightarrow> x \<noteq> []"
  unfolding split_ws_def by (rule split_acc_nonempty)

lemma is_title_case_no_error: "is_title_case s \<noteq> Inl e"
proof (cases "length (split_ws s) < 2")
  case True
  then show ?thesis by (simp add: is_title_case_def)
next
  case False
  then obtain w ws where ws: "split_ws s = w # ws"
    by (cases "split_ws s") auto
  then have "w \<noteq> []" using split_ws_nonempty[of w s] by simp
  then obtain c cs where "w = c # cs" by (cases w) auto
  with ws False show ?thesis
    by (simp add: is_title_case_def index_at_def Let_def)
qed

lemma classify_line_no_error:
  assumes "line \<noteq> []"
  shows "classify_line line \<noteq> Inl e"
proof -
  obtain b where b: "is_title_case line = Inr b"
    using is_title_case_no_error by (cases "is_title_case line") auto
  from assms have i: "index_at line 0 = Inr (line ! 0)" by (simp add: index_at_def)
  show ?thesis
    by (simp add: classify_line_def b i)
qed

lemma classify_line_values:
  assumes "classify_line line = Inr (c, l)"
  shows "c \<in> {9 / 10, 85 / 100, 8 / 10, 75 / 100, 7 / 10, 0}"
  using assms
  by (auto simp: classify_line_def split: if_splits sum.splits)

lemma analyze_no_error: "analyze_line_for_heading raw p l \<noteq> Inl e"
proof -
  define line where "line = sub_ws_runs (strip raw)"
  show ?thesis
  proof (cases "length line < 3 \<or> length line > 200 \<or> is_regular_text line")
    case True
    then show ?thesis by (auto simp: analyze_line_for_heading_def line_def[symmetric])
  next
    case False
    then have "line \<noteq> []" by auto
    then obtain c lv where "classify_line line = Inr (c, lv)"
      using classify_line_no_error by (cases "classify_line line") auto
    with False show ?thesis by (auto simp: analyze_line_for_heading_def line_def[symmetric])
  qed
qed

lemma analyze_emitted:
  assumes "analyze_line_for_heading raw p l = Inr (Some h)"
  shows "6 / 10 < confidence h \<and> confidence h \<le> 9 / 10 \<and> source h = text_analysis"
proof -
  define line where "line = sub_ws_runs (strip raw)"
  from assms obtain c lv where cl: "classify_line line = Inr (c, lv)" and c: "6 / 10 < c"
    and h: "confidence h = c" "source h = text_analysis"
    by (auto simp: analyze_line_for_heading_def line_def[symmetric] Let_def split: if_splits sum.splits)
  from classify_line_values[OF cl] c h show ?thesis by auto
qed

lemma font_line_no_error: "font_line p raw l \<noteq> Inl e"
proof (cases "strip raw = []")
  case True
  then show ?thesis by (simp add: font_line_def)
next
  case False
  then have "index_at (strip raw) 0 = Inr (strip raw ! 0)" by (simp add: index_at_def)
  then show ?thesis by (simp add: font_line_def Let_def)
qed

lemma font_line_emitted:
  "font_line p raw l = Inr (Some h) \<Longrightarrow> confidence h = 6 / 10 \<and> source h = font_analysis"
  by (auto simp: font_line_def Let_def split: if_splits sum.splits)

lemma position_line_no_error: "position_line p raw l \<noteq> Inl e"
proof (cases "strip raw = []")
  case True
  then show ?thesis by (simp add: position_line_def)
next
  case False
  then have "index_at (strip raw) 0 = Inr (strip raw ! 0)" by (simp add: index_at_def)
  then show ?thesis by (simp add: position_line_def Let_def)
qed

lemma position_line_emitted:
  "position_line p raw l = Inr (Some h) \<Longrightarrow> confidence h = 65 / 100 \<and> source h = position_analysis"
  by (auto simp: position_line_def Let_def split: if_splits sum.splits)


lemma enumerate_pages_emitted:
  assumes "h \<in> set (concat (map (\<lambda>(page_num, page). g page_num page) (enumerate1 pgs)))"
  shows "\<exists>page_num page. h \<in> set (g page_num page)"
  using assms by auto

lemma text_emitted:
  assumes "h \<in> set (extract_headings_from_text pgs)"
  shows "6 / 10 < confidence h \<and> confidence h \<le> 9 / 10 \<and> source h = text_analysis"
proof -
  from assms obtain n page where "h \<in> set (text_page n page)"
    unfolding extract_headings_from_text_def by (auto dest: enumerate_pages_emitted)
  then obtain ls where "h \<in> set (scan_lines (text_line n) 1 ls)"
    by (auto simp: text_page_def split: option.splits if_splits)
  then obtain l k where "text_line n l k = Inr (Some h)"
    using scan_lines_emitted by blast
  then obtain raw where "analyze_line_for_heading raw n k = Inr (Some h)"
    by (auto simp: text_line_def Let_def split: if_splits)
  then show ?thesis by (rule analyze_emitted)
qed

lemma font_emitted:
  assumes "h \<in> set (extract_headings_by_font pgs)"
  shows "confidence h = 6 / 10 \<and> source h = font_analysis"
proof -
  from assms obtain n page where "h \<in> set (font_page n page)"
    unfolding extract_headings_by_font_def by (auto dest: enumerate_pages_emitted)
  then obtain ls where "h \<in> set (scan_lines (font_line n) 1 ls)"
    by (auto simp: font_page_def split: option.splits if_splits)
  then obtain l k where "font_line n l k = Inr (Some h)"
    using scan_lines_emitted by blast
  then show ?thesis by (rule font_line_emitted)
qed

lemma position_emitted:
  assumes "h \<in> set (extract_headings_by_position pgs)"
  shows "confidence h = 65 / 100 \<and> source h = position_analysis"
proof -
  from assms obtain n page where "h \<in> set (position_page n page)"
    unfolding extract_headings_by_position_def by (auto dest: enumerate_pages_emitted)
  then obtain ls where "h \<in> set (scan_lines (position_line n) 1 ls)"
    by (auto simp: position_page_def split: option.splits if_splits)
  then obtain l k where "position_line n l k = Inr (Some h)"
    using scan_lines_emitted by blast
  then show ?thesis by (rule position_line_emitted)
qed

lemma process_outline_entry_emitted:
  "h \<in> set (process_outline_entry lvl e) \<Longrightarrow>
   \<exists>item \<in> set (entry_items e). title h = item_title item \<and> get_page_number item = Inr (page_number h)"
proof (induction lvl e rule: process_outline_entry.induct)
  case (1 lvl items)
  from "1.prems" obtain x where x: "x \<in> set items" "h \<in> set (process_outline_entry (lvl + 1) x)"
    by auto
  from "1.IH"[OF x] x(1) show ?case by auto
next
  case (2 lvl item)
  then show ?case by (auto split: sum.splits)
qed

lemma extract_builtin_outline_emitted:
  assumes "h \<in> set (extract_builtin_outline ol)"
  shows "source h = builtin_outline \<and> confidence h = 95 / 100 \<and>
         (\<exists>item \<in> set (concat (map entry_items ol)).
            title h = item_title item \<and> get_page_number item = Inr (page_number h))"
proof -
  from assms obtain g where g: "g \<in> set (process_outline_items ol 0)"
    and h: "h = g\<lparr> source := builtin_outline, confidence := 95 / 100 \<rparr>"
    by (auto simp: extract_builtin_outline_def split: if_splits)
  from g obtain e where e: "e \<in> set ol" "g \<in> set (process_outline_entry 0 e)"
    by (auto simp: process_outline_items_def)
  from process_outline_entry_emitted[OF e(2)] e(1) h show ?thesis by auto
qed



text \<open>
  C2 (as stated). Every candidate of every detector is said to have a confidence strictly
  above 0.6. The Font-Heuristic Detector gives each of its candidates the confidence 0.6
  itself: the one-line page \<open>HELLO WORLD\<close> yields one.
\<close>

theorem font_confidence_counterexample:
  "extract_headings_by_font [Some ''HELLO WORLD'']
     = [\<lparr> title = ''HELLO WORLD'', level = 1, page_number = Some 1, line_number = Some 1,
          source = font_analysis, confidence = 6 / 10, color = None, italic = None, bold = None \<rparr>]
   \<and> \<not> (6 / 10 < confidence
           \<lparr> title = ''HELLO WORLD'', level = 1, page_number = Some 1, line_number = Some 1,
             source = font_analysis, confidence = 6 / 10, color = None, italic = None, bold = None \<rparr>)"
  by code_simp

text \<open>
  C2 (amended). Every candidate of the four detectors has a confidence of at least 0.6
  and at most 1.0, and it is exactly 0.6 precisely for the candidates of the
  Font-Heuristic Detector; those of the other three detectors are strictly above 0.6.
\<close>

theorem detector_confidence:
  assumes "h \<in> set (extract_builtin_outline ol @ extract_headings_from_text pgs
                     @ extract_headings_by_font pgs @ extract_headings_by_position pgs)"
  shows "6 / 10 \<le> confidence h \<and> confidence h \<le> 1
         \<and> ((confidence h = 6 / 10) = (source h = font_analysis))"
proof -
  from assms consider
      "h \<in> set (extract_builtin_outline ol)" | "h \<in> set (extract_headings_from_text pgs)"
    | "h \<in> set (extract_headings_by_font pgs)" | "h \<in> set (extract_headings_by_position pgs)"
    by auto
  then show ?thesis
  proof cases
    case 1
    then show ?thesis using extract_builtin_outline_emitted[of h ol] by simp
  next
    case 2
    then show ?thesis using text_emitted[of h pgs] by simp
  next
    case 3
    then show ?thesis using font_emitted[of h pgs] by simp
  next
    case 4
    then show ?thesis using position_emitted[of h pgs] by simp
  qed
qed

theorem detector_confidence_witness:
  "\<lparr> title = ''HELLO WORLD'', level = 0, page_number = Some 1, line_number = Some 1,
     source = position_analysis, confidence = 65 / 100, color = None, italic = None, bold = None \<rparr>
     \<in> set (extract_builtin_outline [] @ extract_headings_from_text [Some ''HELLO WORLD'']
            @ extract_headings_by_font [Some ''HELLO WORLD'']
            @ extract_headings_by_position [Some ''HELLO WORLD''])
   \<and> (6 / 10 :: rat) \<le> 65 / 100 \<and> (65 / 100 :: rat) \<le> 1
   \<and> (((65 / 100 :: rat) = 6 / 10) = (position_analysis = font_analysis))"
proof -
  have mem:
    "\<lparr> title = ''HELLO WORLD'', level = 0, page_number = Some 1, line_number = Some 1,
       source = position_analysis, confidence = 65 / 100, color = None, italic = None, bold = None \<rparr>
     \<in> set (extract_builtin_outline [] @ extract_headings_from_text [Some ''HELLO WORLD'']
            @ extract_headings_by_font [Some ''HELLO WORLD'']
            @ extract_headings_by_position [Some ''HELLO WORLD''])"
    by code_simp
  from detector_confidence[OF mem] mem show ?thesis by simp
qed

text \<open>
  C3. The page text of the scenario is said to yield the two numbered headings. The
  Text Normalizer replaces every newline by a space before the text is split into
  lines, so the page is one line of eleven words that ends in a period, which
  \<open>_is_regular_text\<close> rejects: the detector emits nothing. (Taken alone, the line
  \<open>1. Introduction\<close> would get level 1, the number of dots in the whole line.)
\<close>

theorem text_detector_scenario_emits_nothing:
  "extract_headings_from_text
     [Some (''1. Introduction'' @ [CHR 0x0A] @ ''This describes the overall approach.''
            @ [CHR 0x0A] @ ''2. Methodology'' @ [CHR 0x0A] @ ''Details follow.'')] = []"
  by code_simp

text \<open>
  C9. No line makes \<open>_analyze_line_for_heading\<close> raise: the model's only failing
  operation is an index out of range, and each \<open>line[0]\<close> (and \<open>words[0][0]\<close>) is reached
  only behind its length check. The same holds for the line tests of the font and the
  position detector. Each returns \<open>None\<close> or a candidate.
\<close>

theorem line_analysis_never_raises:
  "(\<exists>r. analyze_line_for_heading raw page_num line_num = Inr r)
   \<and> (\<exists>r. font_line page_num raw line_num = Inr r)
   \<and> (\<exists>r. position_line page_num raw line_num = Inr r)"
proof -
  have "\<exists>r. analyze_line_for_heading raw page_num line_num = Inr r"
    using analyze_no_error by (cases "analyze_line_for_heading raw page_num line_num") auto
  moreover have "\<exists>r. font_line page_num raw line_num = Inr r"
    using font_line_no_error by (cases "font_line page_num raw line_num") auto
  moreover have "\<exists>r. position_line page_num raw line_num = Inr r"
    using position_line_no_error by (cases "position_line page_num raw line_num") auto
  ultimately show ?thesis by blast
qed

subsection \<open>Builtin-Outline Reader\<close>



subsection \<open>Fusion/Deduplication Engine\<close>

lemma scan_existing_unchanged:
  "scan_existing h n rest u = (False, u') \<Longrightarrow> u' = u"
  by (induction rest) (auto simp: Let_def split: if_splits)

lemma scan_existing_set:
  "set rest \<subseteq> set u \<Longrightarrow> set (snd (scan_existing h n rest u)) \<subseteq> insert h (set u)"
  by (induction rest) (auto simp: Let_def split: if_splits dest: notin_set_remove1)

lemma scan_existing_length:
  "set rest \<subseteq> set u \<Longrightarrow> length (snd (scan_existing h n rest u)) = length u"
proof (induction rest)
  case Nil
  then show ?case by simp
next
  case (Cons e rest)
  then have "e \<in> set u" by simp
  then have "Suc (length u - Suc 0) = length u"
    using length_pos_if_in_set[of e u] by simp
  with Cons show ?case by (simp add: Let_def length_remove1)
qed

lemma dedup_step_set: "set (dedup_step u h) \<subseteq> insert h (set u)"
proof (cases "scan_existing h (normalize_title (strip (title h))) u u")
  case (Pair d u')
  with scan_existing_set[of u u h "normalize_title (strip (title h))"]
  show ?thesis by (auto simp: dedup_step_def Let_def)
qed

lemma dedup_step_length: "length (dedup_step u h) \<le> Suc (length u)"
proof (cases "scan_existing h (normalize_title (strip (title h))) u u")
  case (Pair d u')
  with scan_existing_length[of u u h "normalize_title (strip (title h))"]
  show ?thesis by (auto simp: dedup_step_def Let_def)
qed

lemma foldl_dedup_set: "set (foldl dedup_step u hs) \<subseteq> set u \<union> set hs"
proof (induction hs arbitrary: u)
  case Nil
  then show ?case by simp
next
  case (Cons h hs)
  from Cons.IH[of "dedup_step u h"] dedup_step_set[of u h] show ?case by auto
qed

lemma foldl_dedup_length: "length (foldl dedup_step u hs) \<le> length u + length hs"
proof (induction hs arbitrary: u)
  case Nil
  then show ?case by simp
next
  case (Cons h hs)
  from Cons.IH[of "dedup_step u h"] dedup_step_length[of u h] show ?case by simp
qed


text \<open>
  C10. Every member of the output of the Fusion/Deduplication Engine is a member of its
  input, the record as it came in, and the output is no longer than the input.
\<close>

theorem deduplication_keeps_input_records:
  "set (advanced_deduplication hs) \<subseteq> set hs
   \<and> length (advanced_deduplication hs) \<le> length hs"
  using foldl_dedup_set[of "[]" hs] foldl_dedup_length[of "[]" hs]
  by (simp add: advanced_deduplication_def)

subsection \<open>Report Assembler\<close>

text \<open>
  C8. In a report, the count of each source under \<open>extraction_methods\<close> is the number of
  candidates its detector produced, before deduplication; \<open>total_headings\<close> is the
  number left after it.
\<close>

theorem report_counts_raw_candidates:
  assumes "load_pdf w path = Some reader" and "extract_all_headings w path = Inr (Report r)"
  shows "builtin_outline_count r = length (extract_builtin_outline (outline reader))
    \<and> text_analysis_count r = length (extract_headings_from_text (pages reader))
    \<and> font_analysis_count r = length (extract_headings_by_font (pages reader))
    \<and> position_analysis_count r = length (extract_headings_by_position (pages reader))
    \<and> total_headings r = length (advanced_deduplication
         (extract_builtin_outline (outline reader) @ extract_headings_from_text (pages reader)
          @ extract_headings_by_font (pages reader) @ extract_headings_by_position (pages reader)))"
  using assms
  by (auto simp: extract_all_headings_def Let_def split: sum.splits)

theorem report_counts_raw_candidates_witness:
  "load_pdf \<lparr> path_exists = (\<lambda>_. True),
              read_pdf = (\<lambda>_. Some \<lparr> pages = [Some ''HELLO WORLD''], outline = [] \<rparr>),
              can_write = (\<lambda>_. True) \<rparr> ''doc.pdf''
     = Some \<lparr> pages = [Some ''HELLO WORLD''], outline = [] \<rparr>
   \<and> extract_all_headings \<lparr> path_exists = (\<lambda>_. True),
              read_pdf = (\<lambda>_. Some \<lparr> pages = [Some ''HELLO WORLD''], outline = [] \<rparr>),
              can_write = (\<lambda>_. True) \<rparr> ''doc.pdf''
     = Inr (Report \<lparr> pdf_filename = ''doc.pdf'', total_headings = 1,
                     builtin_outline_count = 0, text_analysis_count = 1,
                     font_analysis_count = 1, position_analysis_count = 1,
                     headings = [HNode \<lparr> title = ''HELLO WORLD'', level = 0, page_number = Some 1,
                                         line_number = Some 1, source = text_analysis,
                                         confidence = 85 / 100, color = None, italic = None,
                                         bold = None \<rparr> []] \<rparr>)
   \<and> length (extract_headings_by_font [Some ''HELLO WORLD'']) = 1"
proof -
  have l: "load_pdf \<lparr> path_exists = (\<lambda>_. True),
              read_pdf = (\<lambda>_. Some \<lparr> pages = [Some ''HELLO WORLD''], outline = [] \<rparr>),
              can_write = (\<lambda>_. True) \<rparr> ''doc.pdf''
     = Some \<lparr> pages = [Some ''HELLO WORLD''], outline = [] \<rparr>"
    by (simp add: load_pdf_def)
  have e: "extract_all_headings \<lparr> path_exists = (\<lambda>_. True),
              read_pdf = (\<lambda>_. Some \<lparr> pages = [Some ''HELLO WORLD''], outline = [] \<rparr>),
              can_write = (\<lambda>_. True) \<rparr> ''doc.pdf''
     = Inr (Report \<lparr> pdf_filename = ''doc.pdf'', total_headings = 1,
                     builtin_outline_count = 0, text_analysis_count = 1,
                     font_analysis_count = 1, position_analysis_count = 1,
                     headings = [HNode \<lparr> title = ''HELLO WORLD'', level = 0, page_number = Some 1,
                                         line_number = Some 1, source = text_analysis,
                                         confidence = 85 / 100, color = None, italic = None,
                                         bold = None \<rparr> []] \<rparr>)"
    by code_simp
  from report_counts_raw_candidates[OF l e] l e show ?thesis by simp
qed

subsection \<open>Duplicates and confidence\<close>

















subsection \<open>Hierarchy Builder\<close>

lemma place_inv:
  assumes "store_inv hs k st"
  shows "store_inv hs (Suc k) (place hs st k)"
proof -
  define stk where "stk = dropWhile (\<lambda>top. level (hs ! top) \<ge> level (hs ! k)) (stack st)"
  have sub: "set stk \<subseteq> set (stack st)"
    unfolding stk_def by (auto dest: set_dropWhileD)
  show ?thesis
  proof (cases stk)
    case Nil
    with assms show ?thesis
      by (auto simp: place_def Let_def stk_def[symmetric] store_inv_def less_Suc_eq)
  next
    case (Cons parent rest)
    have "\<not> level (hs ! k) \<le> level (hs ! hd stk)"
      unfolding stk_def using Cons hd_dropWhile[of "\<lambda>top. level (hs ! top) \<ge> level (hs ! k)" "stack st"]
      by (simp add: stk_def)
    with Cons have lv: "level (hs ! parent) < level (hs ! k)" by simp
    from Cons sub have "parent \<in> set (stack st)" by auto
    with assms have pk: "parent < k" by (simp add: store_inv_def)
    from assms sub Cons have stk_lt: "\<forall>j \<in> set stk. j < Suc k"
      by (auto simp: store_inv_def less_Suc_eq)
    from assms lv pk stk_lt Cons show ?thesis
      by (auto simp: place_def Let_def stk_def[symmetric] store_inv_def less_Suc_eq)
  qed
qed

lemma foldl_place_inv:
  "store_inv hs n (foldl (place hs) \<lparr> hierarchy = [], kids = (\<lambda>_. []), stack = [] \<rparr> [0 ..< n])"
proof (induction n)
  case 0
  then show ?case by (simp add: store_inv_def)
next
  case (Suc n)
  then show ?case by (simp add: place_inv)
qed

lemma build_store_inv: "store_inv hs (length hs) (build_store hs)"
  unfolding build_store_def by (rule foldl_place_inv)

lemma kids_in_range:
  "filter (\<lambda>c. i < c \<and> c < length hs) (kids (build_store hs) i) = kids (build_store hs) i"
  using build_store_inv[of hs] by (auto simp: store_inv_def intro: filter_True)

lemma kids_levels:
  "c \<in> set (kids (build_store hs) p) \<Longrightarrow> level (hs ! p) < level (hs ! c)"
  using build_store_inv[of hs] by (auto simp: store_inv_def)

lemma mk_tree_heading: "node_heading (mk_tree hs ks i) = hs ! i"
  by (subst mk_tree.simps) simp

lemma mk_tree_children:
  "node_children (mk_tree hs ks i) = map (mk_tree hs ks) (filter (\<lambda>c. i < c \<and> c < length hs) (ks i))"
  by (subst mk_tree.simps) simp

lemma strictly_nested_iff:
  "strictly_nested t = (\<forall>c \<in> set (node_children t). level (node_heading t) < level (node_heading c) \<and> strictly_nested c)"
  by (cases t) simp

lemma mk_tree_nested:
  "(\<forall>p c. c \<in> set (ks p) \<longrightarrow> level (hs ! p) < level (hs ! c)) \<Longrightarrow> strictly_nested (mk_tree hs ks i)"
proof (induction hs ks i rule: mk_tree.induct)
  case (1 hs ks i)
  show ?case
  proof (subst strictly_nested_iff, intro ballI)
    fix t assume "t \<in> set (node_children (mk_tree hs ks i))"
    then obtain c where c: "c \<in> set (ks i)" "i < c" "c < length hs" and t: "t = mk_tree hs ks c"
      by (auto simp: mk_tree_children)
    from "1.IH"[of c] c "1.prems" have "strictly_nested (mk_tree hs ks c)" by simp
    moreover from "1.prems" c have "level (hs ! i) < level (hs ! c)" by blast
    ultimately show "level (node_heading (mk_tree hs ks i)) < level (node_heading t) \<and> strictly_nested t"
      by (simp add: t mk_tree_heading)
  qed
qed

lemma paths_iff:
  "q \<in> set (paths t) = (q = [node_heading t] \<or> (\<exists>c \<in> set (node_children t). \<exists>r \<in> set (paths c). q = node_heading t # r))"
  by (cases t) auto

lemma mk_tree_paths:
  "(\<forall>p c. c \<in> set (ks p) \<longrightarrow> level (hs ! p) < level (hs ! c)) \<Longrightarrow> q \<in> set (paths (mk_tree hs ks i))
   \<Longrightarrow> sorted_wrt (\<lambda>a b. level a < level b) q \<and> q \<noteq> [] \<and> hd q = hs ! i"
proof (induction hs ks i arbitrary: q rule: mk_tree.induct)
  case (1 hs ks i)
  from "1.prems"(2) consider "q = [hs ! i]"
    | c r where "c \<in> set (ks i)" "i < c" "c < length hs" "r \<in> set (paths (mk_tree hs ks c))" "q = hs ! i # r"
    by (subst (asm) paths_iff) (auto simp: mk_tree_heading mk_tree_children)
  then show ?case
  proof cases
    case 1
    then show ?thesis by simp
  next
    case 2
    from "1.IH"[of c r] 2 "1.prems"(1)
    have r: "sorted_wrt (\<lambda>a b. level a < level b) r" "r \<noteq> []" "hd r = hs ! c" by simp_all
    from "1.prems"(1) 2 have lv: "level (hs ! i) < level (hs ! c)" by blast
    have "level (hs ! i) < level y" if "y \<in> set r" for y
    proof (cases r)
      case Nil
      with r show ?thesis by simp
    next
      case (Cons x xs)
      with r that lv show ?thesis by (auto simp: less_trans)
    qed
    with r 2 show ?thesis by simp
  qed
qed

lemma build_hierarchy_returns: "\<not> level_page_clash hs \<Longrightarrow> \<exists>forest. build_hierarchy hs = Inr forest"
  by (simp add: build_hierarchy_def sort_by_level_def Let_def)


text \<open>
  C6. In the forest the Hierarchy Builder returns, every path from a node down to a
  descendant has strictly increasing levels, and every child has a level strictly above
  its parent's. (The builder returns a forest unless its sort raises, which it does
  exactly on a \<open>level_page_clash\<close>.)
\<close>

theorem hierarchy_levels_strictly_increase:
  assumes "build_hierarchy candidates = Inr forest" and "t \<in> set forest" and "q \<in> set (paths t)"
  shows "sorted_wrt (\<lambda>a b. level a < level b) q \<and> strictly_nested t"
proof -
  from assms(1) obtain hs where hs: "sort_by_level candidates = Inr hs"
    and forest: "forest = map (mk_tree hs (kids (build_store hs))) (hierarchy (build_store hs))"
    by (auto simp: build_hierarchy_def Let_def split: sum.splits)
  from assms(2) forest obtain i where t: "t = mk_tree hs (kids (build_store hs)) i" by auto
  have edges: "\<forall>p c. c \<in> set (kids (build_store hs) p) \<longrightarrow> level (hs ! p) < level (hs ! c)"
    using kids_levels by blast
  from mk_tree_paths[OF edges] mk_tree_nested[OF edges] assms(3) t show ?thesis by blast
qed

theorem hierarchy_levels_strictly_increase_witness:
  "build_hierarchy
     [candidate ''1.1.1 Scope'' 2 text_analysis (9 / 10) 3,
      candidate ''OVERVIEW'' 0 text_analysis (85 / 100) 1,
      candidate ''Project Goal'' 1 text_analysis (8 / 10) 2,
      candidate ''APPENDIX'' 0 text_analysis (85 / 100) 9]
   = Inr [HNode (candidate ''OVERVIEW'' 0 text_analysis (85 / 100) 1) [],
          HNode (candidate ''APPENDIX'' 0 text_analysis (85 / 100) 9)
            [HNode (candidate ''Project Goal'' 1 text_analysis (8 / 10) 2)
               [HNode (candidate ''1.1.1 Scope'' 2 text_analysis (9 / 10) 3) []]]]
   \<and> sorted_wrt (\<lambda>a b. level a < level b)
        [candidate ''APPENDIX'' 0 text_analysis (85 / 100) 9,
         candidate ''Project Goal'' 1 text_analysis (8 / 10) 2,
         candidate ''1.1.1 Scope'' 2 text_analysis (9 / 10) 3]
   \<and> strictly_nested
        (HNode (candidate ''APPENDIX'' 0 text_analysis (85 / 100) 9)
            [HNode (candidate ''Project Goal'' 1 text_analysis (8 / 10) 2)
               [HNode (candidate ''1.1.1 Scope'' 2 text_analysis (9 / 10) 3) []]])"
proof -
  let ?s = "candidate ''1.1.1 Scope'' 2 text_analysis (9 / 10) 3"
  let ?o = "candidate ''OVERVIEW'' 0 text_analysis (85 / 100) 1"
  let ?g = "candidate ''Project Goal'' 1 text_analysis (8 / 10) 2"
  let ?a = "candidate ''APPENDIX'' 0 text_analysis (85 / 100) 9"
  let ?t = "HNode ?a [HNode ?g [HNode ?s []]]"
  have built: "build_hierarchy [?s, ?o, ?g, ?a] = Inr [HNode ?o [], ?t]" by code_simp
  have root: "?t \<in> set [HNode ?o [], ?t]" by simp
  have path: "[?a, ?g, ?s] \<in> set (paths ?t)" by simp
  from hierarchy_levels_strictly_increase[OF built root path] built show ?thesis by simp
qed


end
